theory Spec2Isabelle
  imports Complex_Main "HOL-Library.Multiset"
begin

section \<open>Python values used by the memory tiers\<close>

text \<open>
  Strings are \<^typ>\<open>string\<close>, read as sequences of code points below 256. On that range the
  character classes below are the ones of Python 3: \<open>str.isspace\<close> (also the class \<open>\s\<close> of
  \<open>re\<close>) holds for 9..13, 28..32, 133 and 160; the class \<open>\d\<close> is \<open>0\<close>..\<open>9\<close>;
  \<open>str.lower\<close> moves \<open>A\<close>..\<open>Z\<close> and the accented capitals 192..222 (215 apart) up by 32.
\<close>

definition is_space :: "char \<Rightarrow> bool" where
  "is_space c =
     (let n = (of_char c :: nat)
      in (9 \<le> n \<and> n \<le> 13) \<or> (28 \<le> n \<and> n \<le> 32) \<or> n = 133 \<or> n = 160)"

definition is_digit :: "char \<Rightarrow> bool" where
  "is_digit c = (let n = (of_char c :: nat) in 48 \<le> n \<and> n \<le> 57)"

definition lower_char :: "char \<Rightarrow> char" where
  "lower_char c =
     (let n = (of_char c :: nat)
      in if (65 \<le> n \<and> n \<le> 90) \<or> (192 \<le> n \<and> n \<le> 222 \<and> n \<noteq> 215)
         then char_of (n + 32) else c)"

definition lower :: "string \<Rightarrow> string" where
  "lower s = map lower_char s"

definition strip :: "string \<Rightarrow> string" where
  "strip s = dropWhile is_space (rev (dropWhile is_space (rev s)))"

text \<open>\<open>xs[i:]\<close> and \<open>xs[:j]\<close>: a negative bound counts from the end and is clamped at 0.\<close>

definition slice_from :: "'a list \<Rightarrow> int \<Rightarrow> 'a list" where
  "slice_from xs i =
     (if i < 0 then drop (nat (int (length xs) + i)) xs else drop (nat i) xs)"

definition slice_to :: "'a list \<Rightarrow> int \<Rightarrow> 'a list" where
  "slice_to xs j =
     (if j < 0 then take (nat (int (length xs) + j)) xs else take (nat j) xs)"

text \<open>\<open>str(n)\<close> for an integer, and \<open>sep.join(parts)\<close>.\<close>

fun str_nat :: "nat \<Rightarrow> string" where
  "str_nat n =
     (if n < 10 then [''0123456789'' ! n]
      else str_nat (n div 10) @ [''0123456789'' ! (n mod 10)])"

declare str_nat.simps [simp del]

definition str_int :: "int \<Rightarrow> string" where
  "str_int i = (if i < 0 then CHR ''-'' # str_nat (nat (- i)) else str_nat (nat i))"

fun join :: "string \<Rightarrow> string list \<Rightarrow> string" where
  "join sep [] = []"
| "join sep [x] = x"
| "join sep (x # y # ys) = x @ sep @ join sep (y # ys)"

text \<open>The exceptions of \<open>core/exceptions.py\<close> that the tiers raise, and the ones of the
  interpreter and of the external capabilities that reach them.\<close>

datatype error =
    WorkingMemoryError
  | EpisodicMemoryError
  | SemanticMemoryError
  | ProceduralMemoryError
  | AttributeError
  | ValueError
  | CapabilityError


section \<open>Working memory (\<open>memory/working.py\<close>)\<close>

text \<open>The message classes of \<open>langchain_core.messages\<close>: the three the code tests with
  \<open>isinstance\<close>, and any other \<open>BaseMessage\<close> with its \<open>type\<close> tag.\<close>

datatype message =
    SystemMessage string
  | HumanMessage string
  | AIMessage string
  | OtherMessage string string

fun content :: "message \<Rightarrow> string" where
  "content (SystemMessage c) = c"
| "content (HumanMessage c) = c"
| "content (AIMessage c) = c"
| "content (OtherMessage t c) = c"

fun message_type :: "message \<Rightarrow> string" where
  "message_type (SystemMessage c) = ''system''"
| "message_type (HumanMessage c) = ''human''"
| "message_type (AIMessage c) = ''ai''"
| "message_type (OtherMessage t c) = t"

fun is_SystemMessage :: "message \<Rightarrow> bool" where
  "is_SystemMessage (SystemMessage c) = True"
| "is_SystemMessage m = False"

fun is_HumanMessage :: "message \<Rightarrow> bool" where
  "is_HumanMessage (HumanMessage c) = True"
| "is_HumanMessage m = False"

fun is_AIMessage :: "message \<Rightarrow> bool" where
  "is_AIMessage (AIMessage c) = True"
| "is_AIMessage m = False"

record wm_metadata =
  total_messages :: int
  system_prompts :: int
  user_messages :: int
  ai_messages :: int

record working_memory =
  messages :: "message list"
  max_size :: "int option"
  metadata :: wm_metadata

definition zero_metadata :: wm_metadata where
  "zero_metadata =
     \<lparr>total_messages = 0, system_prompts = 0, user_messages = 0, ai_messages = 0\<rparr>"

text \<open>\<open>WorkingMemory(max_size)\<close>; the default of \<open>max_size\<close> is 50.\<close>

definition WorkingMemory :: "int option \<Rightarrow> working_memory" where
  "WorkingMemory ms = \<lparr>messages = [], max_size = ms, metadata = zero_metadata\<rparr>"

definition update_metadata :: "message \<Rightarrow> wm_metadata \<Rightarrow> wm_metadata" where
  "update_metadata message md =
     (let md1 = md\<lparr>total_messages := total_messages md + 1\<rparr>
      in if is_SystemMessage message then md1\<lparr>system_prompts := system_prompts md1 + 1\<rparr>
         else if is_HumanMessage message then md1\<lparr>user_messages := user_messages md1 + 1\<rparr>
         else if is_AIMessage message then md1\<lparr>ai_messages := ai_messages md1 + 1\<rparr>
         else md1)"

text \<open>
  \<open>store\<close>: append, count, then trim when \<open>max_size\<close> is truthy (neither \<open>None\<close> nor 0) and
  the length exceeds it. Nothing in the body raises on a message, so the \<open>except\<close> branch
  is never taken and the model returns the new state.
\<close>

definition store :: "message \<Rightarrow> working_memory \<Rightarrow> working_memory" where
  "store message wm =
     (let msgs = messages wm @ [message];
          md = update_metadata message (metadata wm);
          msgs' = (case max_size wm of
                     None \<Rightarrow> msgs
                   | Some n \<Rightarrow> if n \<noteq> 0 \<and> int (length msgs) > n
                              then slice_from msgs (- n) else msgs)
      in wm\<lparr>messages := msgs', metadata := md\<rparr>)"

definition store_user :: "string \<Rightarrow> working_memory \<Rightarrow> working_memory" where
  "store_user c wm = store (HumanMessage c) wm"

definition store_ai :: "string \<Rightarrow> working_memory \<Rightarrow> working_memory" where
  "store_ai c wm = store (AIMessage c) wm"

definition store_system :: "string \<Rightarrow> working_memory \<Rightarrow> working_memory" where
  "store_system c wm = store (SystemMessage c) wm"

definition store_semantic :: "string \<Rightarrow> working_memory \<Rightarrow> working_memory" where
  \<open>store_semantic c wm = store (HumanMessage (''[SEMANTIC CONTEXT]\<newline>'' @ c)) wm\<close>

definition clear :: "working_memory \<Rightarrow> working_memory" where
  "clear wm = wm\<lparr>messages := [], metadata := zero_metadata\<rparr>"

definition forget_metadata :: "message \<Rightarrow> wm_metadata \<Rightarrow> wm_metadata" where
  \<comment> \<open>the body of the loop of \<open>remove_last\<close>\<close>
  "forget_metadata msg md =
     (let md1 = md\<lparr>total_messages := total_messages md - 1\<rparr>
      in if is_SystemMessage msg then md1\<lparr>system_prompts := system_prompts md1 - 1\<rparr>
         else if is_HumanMessage msg then md1\<lparr>user_messages := user_messages md1 - 1\<rparr>
         else if is_AIMessage msg then md1\<lparr>ai_messages := ai_messages md1 - 1\<rparr>
         else md1)"

definition remove_last :: "int \<Rightarrow> working_memory \<Rightarrow> working_memory" where
  "remove_last n wm =
     (if n > 0 \<and> n \<le> int (length (messages wm))
      then let removed = slice_from (messages wm) (- n)
           in wm\<lparr>messages := slice_to (messages wm) (- n),
                 metadata := fold forget_metadata removed (metadata wm)\<rparr>
      else wm)"

text \<open>\<open>retrieve(query, **kwargs)\<close> reads the keywords \<open>limit\<close> and \<open>type\<close>; an absent
  keyword is \<open>None\<close>.\<close>

record retrieve_kwargs =
  limit :: "int option"
  msg_type :: "string option"

definition filter_by_type :: "string option \<Rightarrow> message list \<Rightarrow> message list" where
  "filter_by_type ty msgs =
     (case ty of
        None \<Rightarrow> msgs
      | Some t \<Rightarrow>
          if t = [] then msgs
          else if lower t = ''system'' then filter is_SystemMessage msgs
          else if lower t = ''user'' then filter is_HumanMessage msgs
          else if lower t = ''ai'' then filter is_AIMessage msgs
          else msgs)"

definition retrieve :: "string option \<Rightarrow> retrieve_kwargs \<Rightarrow> working_memory \<Rightarrow> error + message list" where
  "retrieve query kwargs wm =
     (let msgs = filter_by_type (msg_type kwargs) (messages wm)
      in case limit kwargs of
           None \<Rightarrow> Inr msgs
         | Some l \<Rightarrow> if l \<noteq> 0 then Inr (slice_from msgs (- l)) else Inr msgs)"

definition get_messages :: "bool \<Rightarrow> working_memory \<Rightarrow> message list" where
  "get_messages exclude_system wm =
     (if exclude_system then filter (\<lambda>m. \<not> is_SystemMessage m) (messages wm)
      else messages wm)"

text \<open>The mutating operations, as a caller issues them one after the other.\<close>

datatype wm_op =
    Store message
  | StoreUser string
  | StoreAI string
  | StoreSystem string
  | StoreSemantic string
  | Clear
  | RemoveLast int

fun apply_op :: "working_memory \<Rightarrow> wm_op \<Rightarrow> working_memory" where
  "apply_op wm (Store m) = store m wm"
| "apply_op wm (StoreUser c) = store_user c wm"
| "apply_op wm (StoreAI c) = store_ai c wm"
| "apply_op wm (StoreSystem c) = store_system c wm"
| "apply_op wm (StoreSemantic c) = store_semantic c wm"
| "apply_op wm Clear = clear wm"
| "apply_op wm (RemoveLast n) = remove_last n wm"

definition run_ops :: "working_memory \<Rightarrow> wm_op list \<Rightarrow> working_memory" where
  "run_ops wm ops = foldl apply_op wm ops"

text \<open>The counters agree with a scan of the stored list.\<close>

definition true_counts :: "message list \<Rightarrow> wm_metadata" where
  "true_counts msgs =
     \<lparr>total_messages = int (length msgs),
      system_prompts = int (length (filter is_SystemMessage msgs)),
      user_messages = int (length (filter is_HumanMessage msgs)),
      ai_messages = int (length (filter is_AIMessage msgs))\<rparr>"

definition counters_consistent :: "working_memory \<Rightarrow> bool" where
  "counters_consistent wm = (metadata wm = true_counts (messages wm))"


section \<open>Procedural memory (\<open>memory/procedural.py\<close>)\<close>

text \<open>A rule. Its \<open>created_at\<close> stamp (the wall-clock time of construction) is left out:
  no operation of the tier reads it.\<close>

record ProceduralRule =
  index :: int
  instruction :: string
  rationale :: string
  category :: "string option"

text \<open>
  The tier's state. The rule list holds references to rule objects, and \<open>heap\<close> gives the
  object behind each reference: \<open>store\<close> appends the caller's object itself and
  \<open>remove_rule\<close> assigns to \<open>rule.index\<close> through the list, so two places of the list that
  hold one object change together. \<open>next_ref\<close> counts the objects allocated so far. Then
  the time of the last update, and the rule file at \<open>file_path\<close> (\<open>None\<close> while it does not
  exist) with whether a write to it succeeds.
\<close>

type_synonym ref = nat

record procedural_memory =
  rule_refs :: "ref list"
  heap :: "ref \<Rightarrow> ProceduralRule"
  next_ref :: ref
  last_updated :: "nat option"
  rule_file :: "string option"
  rule_file_writable :: bool

definition rules :: "procedural_memory \<Rightarrow> ProceduralRule list" where
  \<comment> \<open>\<open>self.rules\<close> as a reader sees it: the object behind each reference, in order\<close>
  "rules pm = map (heap pm) (rule_refs pm)"

text \<open>Construction of a rule object. The new object gets a reference that no live object
  has: the allocation counter, moved past every reference of the rule list.\<close>

definition fresh_ref :: "procedural_memory \<Rightarrow> ref" where
  "fresh_ref pm = fold max (map Suc (rule_refs pm)) (next_ref pm)"

definition new_object :: "ProceduralRule \<Rightarrow> procedural_memory \<Rightarrow> ref \<times> procedural_memory" where
  "new_object rule pm =
     (let a = fresh_ref pm in (a, pm\<lparr>heap := (heap pm)(a := rule), next_ref := Suc a\<rparr>))"

fun new_objects :: "ProceduralRule list \<Rightarrow> procedural_memory \<Rightarrow> ref list \<times> procedural_memory" where
  "new_objects [] pm = ([], pm)"
| "new_objects (rule # others) pm =
     (case new_object rule pm of
        (a, pm1) \<Rightarrow> (case new_objects others pm1 of (refs, pm2) \<Rightarrow> (a # refs, pm2)))"

definition format_rule_line :: "ProceduralRule \<Rightarrow> string" where
  "format_rule_line rule =
     str_int (index rule) @ ''. '' @ instruction rule
       @ (if rationale rule \<noteq> [] then '' - '' @ rationale rule else [])"

text \<open>An operation returns the state it leaves and the exception it raised, if any: a
  failed write leaves the mutation of the rule list that preceded it.\<close>

definition save_rules :: "procedural_memory \<Rightarrow> procedural_memory \<times> error option" where
  \<open>save_rules pm =
     (if rule_file_writable pm
      then (pm\<lparr>rule_file := Some (join ''\<newline>'' (map format_rule_line (rules pm)))\<rparr>, None)
      else (pm, Some ProceduralMemoryError))\<close>

text \<open>\<open>str.split('\n')\<close>, the regular expression \<open>^\d+\.\s*\<close> replaced by the empty string,
  and the split at the first \<open>' - '\<close>.\<close>

fun split_on :: "char \<Rightarrow> string \<Rightarrow> string list" where
  "split_on sep [] = [[]]"
| "split_on sep (c # cs) =
     (if c = sep then [] # split_on sep cs
      else (case split_on sep cs of [] \<Rightarrow> [[c]] | l # ls \<Rightarrow> (c # l) # ls))"

definition remove_numbering :: "string \<Rightarrow> string" where
  "remove_numbering line =
     (case dropWhile is_digit line of
        [] \<Rightarrow> line
      | c # rest \<Rightarrow>
          if takeWhile is_digit line \<noteq> [] \<and> c = CHR ''.''
          then dropWhile is_space rest else line)"

fun split_dash :: "string \<Rightarrow> (string \<times> string) option" where
  "split_dash [] = None"
| "split_dash (c # cs) =
     (if take 3 (c # cs) = '' - '' then Some ([], drop 3 (c # cs))
      else (case split_dash cs of None \<Rightarrow> None | Some (a, b) \<Rightarrow> Some (c # a, b)))"

fun parse_lines :: "string list \<Rightarrow> ProceduralRule list \<Rightarrow> ProceduralRule list" where
  "parse_lines [] acc = acc"
| "parse_lines (l # ls) acc =
     (let line = strip l
      in if line = [] then parse_lines ls acc
         else
           let line' = remove_numbering line;
               (ins, rat) = (case split_dash line' of Some (a, b) \<Rightarrow> (a, b) | None \<Rightarrow> (line', []))
           in parse_lines ls
                (acc @ [\<lparr>index = int (length acc) + 1, instruction = strip ins,
                           rationale = strip rat, category = None\<rparr>]))"

definition parse_rules :: "string \<Rightarrow> ProceduralRule list" where
  \<open>parse_rules text = parse_lines (split_on CHR ''\<newline>'' (strip text)) []\<close>

definition numbered_rules :: "ProceduralRule list \<Rightarrow> string" where
  \<comment> \<open>the numbered block that \<open>retrieve\<close> and \<open>_create_update_prompt\<close> both build\<close>
  \<open>numbered_rules rs =
     join ''\<newline>''
       (map (\<lambda>(i, r). str_nat i @ ''. '' @ instruction r @ '' - '' @ rationale r)
          (enumerate 1 rs))\<close>

definition procedural_retrieve :: "procedural_memory \<Rightarrow> error + string" where
  "procedural_retrieve pm = (if rules pm = [] then Inr [] else Inr (numbered_rules (rules pm)))"

definition feedback_items :: "string list \<Rightarrow> string" where
  \<open>feedback_items items =
     join ''\<newline>'' (map (\<lambda>item. ''- '' @ item) (filter (\<lambda>item. item \<noteq> [] \<and> item \<noteq> ''N/A'') items))\<close>

definition create_update_prompt :: "procedural_memory \<Rightarrow> string list \<Rightarrow> string list \<Rightarrow> string" where
  \<open>create_update_prompt pm what_worked what_to_avoid =
     ''You are maintaining a continuously updated list of the most important procedural behavior instructions for an AI assistant. Your task is to refine and improve a list of key takeaways based on new conversation feedback while maintaining the most valuable existing insights.\<newline>\<newline>CURRENT RULES:\<newline>''
     @ numbered_rules (rules pm)
     @ ''\<newline>\<newline>NEW FEEDBACK:\<newline>What Worked Well:\<newline>''
     @ feedback_items what_worked
     @ ''\<newline>\<newline>What To Avoid:\<newline>''
     @ feedback_items what_to_avoid
     @ ''\<newline>\<newline>Please generate an updated list of up to 10 key takeaways that combines:\<newline>1. The most valuable insights from the current takeaways\<newline>2. New learnings from the recent feedback\<newline>3. Any synthesized insights combining multiple learnings\<newline>\<newline>Requirements for each takeaway:\<newline>- Must be specific and actionable\<newline>- Should address a distinct aspect of behavior\<newline>- Include a clear rationale\<newline>- Written in imperative form (e.g., "Maintain conversation context by...")\<newline>\<newline>Format each takeaway as:\<newline>[#]. [Instruction] - [Brief rationale]\<newline>\<newline>Return only the list, no preamble or explanation.''\<close>

text \<open>
  \<open>update\<close>. The completion capability \<open>llm\<close> maps the prompt to the reply's text or fails;
  \<open>now\<close> is the clock's reading. The rules that \<open>_parse_rules\<close> returns are new objects.
  Every exception of the body is raised again as \<open>ProceduralMemoryError\<close>.
\<close>

definition update ::
  "(string \<Rightarrow> error + string) \<Rightarrow> nat \<Rightarrow> string list \<Rightarrow> string list
     \<Rightarrow> procedural_memory \<Rightarrow> procedural_memory \<times> error option" where
  "update llm now what_worked what_to_avoid pm =
     (case llm (create_update_prompt pm what_worked what_to_avoid) of
        Inl e \<Rightarrow> (pm, Some ProceduralMemoryError)
      | Inr reply \<Rightarrow>
          (case new_objects (parse_rules (strip reply)) pm of
             (new_rules, pm1) \<Rightarrow>
               if new_rules \<noteq> []
               then (case save_rules (pm1\<lparr>rule_refs := take 10 new_rules\<rparr>) of
                       (pm', Some e) \<Rightarrow> (pm', Some ProceduralMemoryError)
                     | (pm', None) \<Rightarrow> (pm'\<lparr>last_updated := Some now\<rparr>, None))
               else (pm1, None)))"

text \<open>\<open>store(data)\<close>: \<open>data\<close> is a rule object, which is appended as it is, or keywords from
  which the constructor \<open>ProceduralRule(**data)\<close> of the model library builds a new object
  or fails.\<close>

datatype 'kw rule_data = RuleObject ref | RuleKwargs 'kw

definition procedural_store ::
  "('kw \<Rightarrow> ProceduralRule option) \<Rightarrow> 'kw rule_data \<Rightarrow> procedural_memory
     \<Rightarrow> procedural_memory \<times> error option" where
  "procedural_store build data pm =
     (case (case data of
              RuleObject a \<Rightarrow> Some (a, pm)
            | RuleKwargs kw \<Rightarrow>
                (case build kw of None \<Rightarrow> None | Some rule \<Rightarrow> Some (new_object rule pm))) of
        None \<Rightarrow> (pm, Some ProceduralMemoryError)
      | Some (a, pm1) \<Rightarrow>
          (case save_rules (pm1\<lparr>rule_refs := rule_refs pm1 @ [a]\<rparr>) of
             (pm', Some e) \<Rightarrow> (pm', Some ProceduralMemoryError)
           | (pm', None) \<Rightarrow> (pm', None)))"

definition procedural_clear :: "procedural_memory \<Rightarrow> procedural_memory \<times> error option" where
  "procedural_clear pm = save_rules (pm\<lparr>rule_refs := []\<rparr>)"

definition add_rule ::
  "string \<Rightarrow> string \<Rightarrow> string option \<Rightarrow> procedural_memory \<Rightarrow> procedural_memory \<times> error option" where
  "add_rule ins rat cat pm =
     (case new_object \<lparr>index = int (length (rules pm)) + 1, instruction = ins,
                        rationale = rat, category = cat\<rparr> pm of
        (a, pm1) \<Rightarrow> save_rules (pm1\<lparr>rule_refs := rule_refs pm1 @ [a]\<rparr>))"

text \<open>The loop \<open>for i, rule in enumerate(self.rules, 1): rule.index = i\<close>: one assignment
  after the other, each to the object behind the reference.\<close>

fun reindex :: "nat \<Rightarrow> ref list \<Rightarrow> (ref \<Rightarrow> ProceduralRule) \<Rightarrow> (ref \<Rightarrow> ProceduralRule)" where
  "reindex i [] h = h"
| "reindex i (a # refs) h = reindex (Suc i) refs (h(a := (h a)\<lparr>index := int i\<rparr>))"

definition remove_rule :: "int \<Rightarrow> procedural_memory \<Rightarrow> procedural_memory \<times> error option" where
  "remove_rule idx pm =
     (if 0 \<le> idx - 1 \<and> idx - 1 < int (length (rules pm))
      then let k = nat (idx - 1);
               popped = take k (rule_refs pm) @ drop (Suc k) (rule_refs pm)
           in save_rules (pm\<lparr>rule_refs := popped, heap := reindex 1 popped (heap pm)\<rparr>)
      else (pm, None))"



subsection \<open>States and replies for the examples\<close>

definition add_rules :: "string list \<Rightarrow> procedural_memory \<Rightarrow> procedural_memory" where
  "add_rules inss pm = fold (\<lambda>ins p. fst (add_rule ins [] None p)) inss pm"

definition no_rules :: procedural_memory where
  "no_rules =
     \<lparr>rule_refs = [],
      heap = (\<lambda>a. \<lparr>index = 0, instruction = [], rationale = [], category = None\<rparr>),
      next_ref = 0, last_updated = None, rule_file = None, rule_file_writable = True\<rparr>"

definition replying :: "string \<Rightarrow> string \<Rightarrow> error + string" where
  "replying reply prompt = Inr reply"

definition twelve_lines :: string where
  \<open>twelve_lines = ''1. a - A\<newline>2. b - B\<newline>3. c - C\<newline>4. d - D\<newline>5. e - E\<newline>6. f - F\<newline>7. g - G\<newline>8. h - H\<newline>9. i - I\<newline>10. j - J\<newline>11. k - K\<newline>12. l - L''\<close>

definition three_rules :: procedural_memory where
  "three_rules = add_rules [''greet'', ''listen'', ''answer''] no_rules"

definition twelve_rules :: procedural_memory where
  "twelve_rules = add_rules [''a'', ''b'', ''c'', ''d'', ''e'', ''f'', ''g'', ''h'', ''i'', ''j'', ''k'', ''l''] no_rules"

text \<open>A caller builds two rule objects and stores the first once and the second twice.\<close>

definition no_kwargs :: "unit \<Rightarrow> ProceduralRule option" where
  "no_kwargs kw = None"

definition store_object :: "ref \<Rightarrow> procedural_memory \<Rightarrow> procedural_memory" where
  "store_object a pm = fst (procedural_store no_kwargs (RuleObject a) pm)"

definition one_object_twice :: procedural_memory where
  "one_object_twice =
     (case new_object \<lparr>index = 1, instruction = ''greet'', rationale = [], category = None\<rparr> no_rules of
        (a, pm1) \<Rightarrow>
          (case new_object \<lparr>index = 2, instruction = ''listen'', rationale = [], category = None\<rparr> pm1 of
             (r, pm2) \<Rightarrow> store_object r (store_object r (store_object a pm2))))"


section \<open>Episodic memory (\<open>memory/episodic.py\<close>)\<close>

text \<open>What the JSON output parser of the reflection chain can return. A number is kept as
  its literal: no operation below computes with one.\<close>

datatype json =
    JNull
  | JBool bool
  | JNumber string
  | JString string
  | JArray "json list"
  | JObject "(string \<times> json) list"

record EpisodicMemoryEntry =
  entry_id :: "string option"
  conversation :: string
  context_tags :: "string list"
  conversation_summary :: string
  what_worked :: string
  what_to_avoid :: string
  created_at :: nat
  last_accessed :: "nat option"
  access_count :: int

text \<open>\<open>d.get(key, default)\<close> on the items of a dict.\<close>

definition dict_get :: "(string \<times> json) list \<Rightarrow> string \<Rightarrow> json \<Rightarrow> json" where
  "dict_get kvs k d = (case map_of kvs k of None \<Rightarrow> d | Some v \<Rightarrow> v)"

text \<open>
  The model library's validation of the entry's fields: a \<open>str\<close> field takes a string, a
  \<open>List[str]\<close> field a list of strings; \<open>null\<close>, a number, a boolean or an object is
  refused with a validation error.
\<close>

definition as_str :: "json \<Rightarrow> string option" where
  "as_str v = (case v of JString s \<Rightarrow> Some s | _ \<Rightarrow> None)"

definition as_str_list :: "json \<Rightarrow> string list option" where
  "as_str_list v =
     (case v of
        JArray xs \<Rightarrow> if list_all (\<lambda>x. as_str x \<noteq> None) xs then Some (map (\<lambda>x. the (as_str x)) xs) else None
      | _ \<Rightarrow> None)"

definition make_entry :: "string \<Rightarrow> nat \<Rightarrow> (string \<times> json) list \<Rightarrow> EpisodicMemoryEntry option" where
  "make_entry conv now reflection =
     (case (as_str_list (dict_get reflection ''context_tags'' (JArray [])),
            as_str (dict_get reflection ''conversation_summary'' (JString [])),
            as_str (dict_get reflection ''what_worked'' (JString [])),
            as_str (dict_get reflection ''what_to_avoid'' (JString []))) of
        (Some tags, Some summary, Some worked, Some avoid) \<Rightarrow>
          Some \<lparr>entry_id = None, conversation = conv, context_tags = tags,
                conversation_summary = summary, what_worked = worked,
                what_to_avoid = avoid, created_at = now, last_accessed = None,
                access_count = 0\<rparr>
      | _ \<Rightarrow> None)"

definition format_conversation :: "message list \<Rightarrow> string" where
  \<open>format_conversation msgs =
     join ''\<newline>''
       (map (\<lambda>msg. (if message_type msg = ''human'' then ''HUMAN'' else ''AI'') @ '': '' @ content msg)
          (filter (\<lambda>msg. \<not> is_SystemMessage msg) msgs))\<close>

text \<open>The episodic collection of the store: the property sets inserted so far (the six
  fields that \<open>store\<close> copies from the entry), and whether an insert succeeds.\<close>

record episodic_properties =
  p_conversation :: string
  p_context_tags :: "string list"
  p_conversation_summary :: string
  p_what_worked :: string
  p_what_to_avoid :: string
  p_created_at :: nat

record episodic_collection =
  objects :: "episodic_properties list"
  insert_ok :: bool

definition entry_properties :: "EpisodicMemoryEntry \<Rightarrow> episodic_properties" where
  "entry_properties entry =
     \<lparr>p_conversation = conversation entry, p_context_tags = context_tags entry,
      p_conversation_summary = conversation_summary entry, p_what_worked = what_worked entry,
      p_what_to_avoid = what_to_avoid entry, p_created_at = created_at entry\<rparr>"

text \<open>
  \<open>store\<close>. The reflection chain \<open>reflect\<close> maps the formatted conversation to the parsed
  JSON value or fails. \<open>reflection.get\<close> exists on an object only; every exception of the
  body is raised again as \<open>EpisodicMemoryError\<close>.
\<close>

definition episodic_store ::
  "(string \<Rightarrow> error + json) \<Rightarrow> nat \<Rightarrow> message list \<Rightarrow> episodic_collection
     \<Rightarrow> episodic_collection \<times> error option" where
  "episodic_store reflect now msgs coll =
     (let conv = format_conversation msgs
      in case reflect conv of
           Inl e \<Rightarrow> (coll, Some EpisodicMemoryError)
         | Inr (JObject reflection) \<Rightarrow>
             (case make_entry conv now reflection of
                None \<Rightarrow> (coll, Some EpisodicMemoryError)
              | Some entry \<Rightarrow>
                  if insert_ok coll
                  then (coll\<lparr>objects := objects coll @ [entry_properties entry]\<rparr>, None)
                  else (coll, Some EpisodicMemoryError))
         | Inr _ \<Rightarrow> (coll, Some EpisodicMemoryError))"

text \<open>A key of the reflection is absent, or holds a value of the type the prompt asks for.\<close>

definition absent_or_str :: "(string \<times> json) list \<Rightarrow> string \<Rightarrow> bool" where
  "absent_or_str kvs k = (case map_of kvs k of None \<Rightarrow> True | Some v \<Rightarrow> as_str v \<noteq> None)"

definition absent_or_str_list :: "(string \<times> json) list \<Rightarrow> string \<Rightarrow> bool" where
  "absent_or_str_list kvs k = (case map_of kvs k of None \<Rightarrow> True | Some v \<Rightarrow> as_str_list v \<noteq> None)"

definition well_typed_reflection :: "(string \<times> json) list \<Rightarrow> bool" where
  "well_typed_reflection kvs =
     (absent_or_str_list kvs ''context_tags'' \<and> absent_or_str kvs ''conversation_summary''
      \<and> absent_or_str kvs ''what_worked'' \<and> absent_or_str kvs ''what_to_avoid'')"

definition str_field :: "(string \<times> json) list \<Rightarrow> string \<Rightarrow> string" where
  \<comment> \<open>the string under a key, the empty string when the key is absent\<close>
  "str_field kvs k = (case map_of kvs k of Some (JString s) \<Rightarrow> s | _ \<Rightarrow> [])"

definition tags_field :: "(string \<times> json) list \<Rightarrow> string list" where
  "tags_field kvs =
     (case map_of kvs ''context_tags'' of
        Some v \<Rightarrow> (case as_str_list v of Some ts \<Rightarrow> ts | None \<Rightarrow> [])
      | None \<Rightarrow> [])"


subsection \<open>Reflections for the examples\<close>

definition reflecting :: "json \<Rightarrow> string \<Rightarrow> error + json" where
  "reflecting v conv = Inr v"

definition short_talk :: "message list" where
  "short_talk = [SystemMessage ''be kind'', HumanMessage ''hi'', AIMessage ''hello'']"

definition empty_collection :: episodic_collection where
  "empty_collection = \<lparr>objects = [], insert_ok = True\<rparr>"

definition reflection_without_what_worked :: "(string \<times> json) list" where
  "reflection_without_what_worked =
     [(''context_tags'', JArray [JString ''greeting'']),
      (''conversation_summary'', JString ''A greeting.''),
      (''what_to_avoid'', JString ''N/A'')]"

definition reflection_with_null_summary :: "(string \<times> json) list" where
  "reflection_with_null_summary =
     [(''context_tags'', JArray [JString ''greeting'']),
      (''conversation_summary'', JNull),
      (''what_to_avoid'', JString ''N/A'')]"


section \<open>Semantic memory (\<open>memory/semantic.py\<close>)\<close>

text \<open>An object of the semantic collection as the store returns it: its identifier and
  the properties the tier reads, each present or not.\<close>

record semantic_object =
  uuid :: string
  prop_chunk :: "string option"
  prop_source :: "string option"
  prop_chunk_index :: "int option"
  prop_metadata :: "(string \<times> string) list option"

record SemanticChunk =
  chunk_id :: string
  chunk_content :: string
  chunk_source :: string
  chunk_index :: int
  chunk_metadata :: "(string \<times> string) list"

definition chunk_text :: "semantic_object \<Rightarrow> string" where
  \<comment> \<open>\<open>props.get('chunk', '').strip()\<close>\<close>
  "chunk_text obj = strip (case prop_chunk obj of None \<Rightarrow> [] | Some c \<Rightarrow> c)"

definition format_chunks :: "semantic_object list \<Rightarrow> string" where
  \<open>format_chunks objs =
     (let chunks =
            concat (map (\<lambda>(i, obj).
                           if chunk_text obj \<noteq> []
                           then [''\<newline>CHUNK '' @ str_nat (i + 1) @ '':\<newline>'' @ chunk_text obj]
                           else [])
                      (enumerate 0 objs))
      in if chunks \<noteq> [] then concat chunks else [])\<close>

text \<open>
  \<open>retrieve\<close>. The hybrid search capability takes the query, the blend factor and the
  limit, and returns the objects found or fails; the keyword \<open>limit\<close> defaults to the
  setting \<open>SEMANTIC_CHUNK_LIMIT\<close>.
\<close>

definition SEMANTIC_CHUNK_LIMIT :: int where
  "SEMANTIC_CHUNK_LIMIT = 15"

definition semantic_retrieve ::
  "(string \<Rightarrow> rat \<Rightarrow> int \<Rightarrow> error + semantic_object list) \<Rightarrow> string \<Rightarrow> int option
     \<Rightarrow> error + string" where
  "semantic_retrieve hybrid query limit_kw =
     (let n = (case limit_kw of None \<Rightarrow> SEMANTIC_CHUNK_LIMIT | Some l \<Rightarrow> l)
      in case hybrid query (1 / 2) n of
           Inl e \<Rightarrow> Inl SemanticMemoryError
         | Inr objs \<Rightarrow> Inr (format_chunks objs))"

definition to_chunk :: "semantic_object \<Rightarrow> SemanticChunk" where
  "to_chunk obj =
     \<lparr>chunk_id = uuid obj,
      chunk_content = (case prop_chunk obj of None \<Rightarrow> [] | Some c \<Rightarrow> c),
      chunk_source = (case prop_source obj of None \<Rightarrow> [] | Some s \<Rightarrow> s),
      chunk_index = (case prop_chunk_index obj of None \<Rightarrow> 0 | Some i \<Rightarrow> i),
      chunk_metadata = (case prop_metadata obj of None \<Rightarrow> [] | Some m \<Rightarrow> m)\<rparr>"

text \<open>\<open>get_by_source\<close>. \<open>fetch\<close> is the store's filtered fetch for a source label;
  \<open>list.sort(key=...)\<close> is a stable sort.\<close>

definition get_by_source ::
  "(string \<Rightarrow> error + semantic_object list) \<Rightarrow> string \<Rightarrow> error + SemanticChunk list" where
  "get_by_source fetch src =
     (case fetch src of
        Inl e \<Rightarrow> Inl SemanticMemoryError
      | Inr objs \<Rightarrow> Inr (sort_key chunk_index (map to_chunk objs)))"

definition format_chunks_as_specified :: "semantic_object list \<Rightarrow> string" where
  \<comment> \<open>the block as the specification words it: every chunk's content under the label of
      its 1-based position\<close>
  \<open>format_chunks_as_specified objs =
     concat (map (\<lambda>(i, obj). ''\<newline>CHUNK '' @ str_nat (i + 1) @ '':\<newline>''
                                @ (case prop_chunk obj of None \<Rightarrow> [] | Some c \<Rightarrow> c))
               (enumerate 0 objs))\<close>


text \<open>What one object contributes to the block of \<open>_format_chunks\<close>: its stripped text
  under the label of its position, or nothing when the text is blank.\<close>

definition labelled_or_skipped :: "nat \<times> semantic_object \<Rightarrow> string" where
  \<open>labelled_or_skipped p =
     (if chunk_text (snd p) \<noteq> []
      then ''\<newline>CHUNK '' @ str_nat (fst p + 1) @ '':\<newline>'' @ chunk_text (snd p) else [])\<close>

subsection \<open>Search results for the examples\<close>

definition found :: "semantic_object list \<Rightarrow> string \<Rightarrow> rat \<Rightarrow> int \<Rightarrow> error + semantic_object list" where
  "found objs query alpha n = Inr objs"

definition fetched :: "semantic_object list \<Rightarrow> string \<Rightarrow> error + semantic_object list" where
  "fetched objs src = Inr objs"

definition chunk_object :: "string \<Rightarrow> string \<Rightarrow> int \<Rightarrow> semantic_object" where
  "chunk_object u c i =
     \<lparr>uuid = u, prop_chunk = Some c, prop_source = Some ''doc.pdf'',
      prop_chunk_index = Some i, prop_metadata = None\<rparr>"


definition blank_then_x :: "semantic_object list" where
  "blank_then_x = [chunk_object ''u1'' [] 0, chunk_object ''u2'' ''x'' 1]"

definition two_clean_chunks :: "semantic_object list" where
  "two_clean_chunks = [chunk_object ''u1'' ''alpha'' 0, chunk_object ''u2'' ''beta'' 1]"

definition twice_loaded :: "semantic_object list" where
  "twice_loaded = [chunk_object ''u1'' ''intro'' 0, chunk_object ''u2'' ''intro'' 0]"

definition shuffled_chunks :: "semantic_object list" where
  "shuffled_chunks = [chunk_object ''u3'' ''end'' 2, chunk_object ''u1'' ''intro'' 0, chunk_object ''u2'' ''body'' 1]"


section \<open>The agent (\<open>agent/core.py\<close>)\<close>

text \<open>
  What \<open>llm.ainvoke\<close> is handed: a list of messages, or the coroutine object that a call of
  an \<open>async\<close> method yields when it is not awaited.
\<close>

datatype llm_input = MessageList "message list" | CoroutineObject

text \<open>
  The attributes \<open>process_message\<close> looks up: the three retrievals and the completion call
  of the members, and the two methods \<open>_create_system_prompt\<close> and \<open>_update_state\<close> of the
  agent itself, \<open>None\<close> when the class has no such attribute. The transient state is of
  any type \<open>'s\<close>.
\<close>

record 's agent_attributes =
  initialize_components :: "error option"
  episodic_retrieve :: "string \<Rightarrow> error + EpisodicMemoryEntry option"
  semantic_retrieve_of :: "string \<Rightarrow> error + string"
  procedural_retrieve_of :: "error + string"
  ainvoke :: "llm_input \<Rightarrow> error + string"
  create_system_prompt :: "(EpisodicMemoryEntry option \<Rightarrow> string \<Rightarrow> error + string) option"
  update_state :: "(EpisodicMemoryEntry option \<Rightarrow> 's \<Rightarrow> error + 's) option"

record 's MemoryAgent =
  initialized :: bool
  working_memory :: working_memory
  state :: 's

text \<open>The class \<open>MemoryAgent\<close> as \<open>agent/core.py\<close> defines it: neither
  \<open>_create_system_prompt\<close> nor \<open>_update_state\<close> is among its methods.\<close>

definition as_defined :: "'s agent_attributes \<Rightarrow> 's agent_attributes" where
  "as_defined attrs = attrs\<lparr>create_system_prompt := None, update_state := None\<rparr>"

text \<open>
  \<open>process_message\<close>, statement by statement. An exception ends the call and leaves the
  agent as it stands at that point. The argument of \<open>ainvoke\<close> is the value of the call
  \<open>self.working_memory.get_messages()\<close>, which the code does not await.
\<close>

definition generate_response ::
  "'s agent_attributes \<Rightarrow> EpisodicMemoryEntry option \<Rightarrow> 's MemoryAgent
     \<Rightarrow> 's MemoryAgent \<times> (error + string)" where
  "generate_response attrs episodic a =
     (case ainvoke attrs CoroutineObject of
        Inl e \<Rightarrow> (a, Inl e)
      | Inr reply \<Rightarrow>
          let a1 = a\<lparr>working_memory := store_ai reply (working_memory a)\<rparr>
          in case update_state attrs of
               None \<Rightarrow> (a1, Inl AttributeError)
             | Some upd \<Rightarrow>
                 (case upd episodic (state a1) of
                    Inl e \<Rightarrow> (a1, Inl e)
                  | Inr s \<Rightarrow> (a1\<lparr>state := s\<rparr>, Inr reply)))"

definition store_turn ::
  "'s agent_attributes \<Rightarrow> string \<Rightarrow> EpisodicMemoryEntry option \<Rightarrow> string \<Rightarrow> string
     \<Rightarrow> 's MemoryAgent \<Rightarrow> 's MemoryAgent \<times> (error + string)" where
  "store_turn attrs user_input episodic semantic procedural a =
     (case create_system_prompt attrs of
        None \<Rightarrow> (a, Inl AttributeError)
      | Some mk \<Rightarrow>
          (case mk episodic procedural of
             Inl e \<Rightarrow> (a, Inl e)
           | Inr system_prompt \<Rightarrow>
               let wm1 = store_system system_prompt (working_memory a);
                   wm2 = (if semantic \<noteq> [] then store_semantic semantic wm1 else wm1);
                   wm3 = store_user user_input wm2
               in generate_response attrs episodic (a\<lparr>working_memory := wm3\<rparr>)))"

definition process_message ::
  "'s agent_attributes \<Rightarrow> string \<Rightarrow> 's MemoryAgent \<Rightarrow> 's MemoryAgent \<times> (error + string)" where
  "process_message attrs user_input a =
     (case (if initialized a then None else initialize_components attrs) of
        Some e \<Rightarrow> (a, Inl e)
      | None \<Rightarrow>
          let a0 = a\<lparr>initialized := True\<rparr>
          in case episodic_retrieve attrs user_input of
               Inl e \<Rightarrow> (a0, Inl e)
             | Inr episodic \<Rightarrow>
                 (case semantic_retrieve_of attrs user_input of
                    Inl e \<Rightarrow> (a0, Inl e)
                  | Inr semantic \<Rightarrow>
                      (case procedural_retrieve_of attrs of
                         Inl e \<Rightarrow> (a0, Inl e)
                       | Inr procedural \<Rightarrow>
                           store_turn attrs user_input episodic semantic procedural a0)))"

text \<open>A chat model as the completion library implements \<open>ainvoke\<close>: it answers a list of
  messages and raises \<open>ValueError\<close> on an input of any other type.\<close>

definition chat_model :: "(message list \<Rightarrow> string) \<Rightarrow> llm_input \<Rightarrow> error + string" where
  "chat_model answer inp = (case inp of MessageList ms \<Rightarrow> Inr (answer ms) | CoroutineObject \<Rightarrow> Inl ValueError)"


subsection \<open>An agent for the examples\<close>

definition no_episode :: "string \<Rightarrow> error + EpisodicMemoryEntry option" where
  "no_episode query = Inr None"

definition no_knowledge :: "string \<Rightarrow> error + string" where
  "no_knowledge query = Inr []"

definition prompt_of_rules :: "EpisodicMemoryEntry option \<Rightarrow> string \<Rightarrow> error + string" where
  "prompt_of_rules episodic procedural = Inr procedural"

definition keep_state :: "EpisodicMemoryEntry option \<Rightarrow> unit \<Rightarrow> error + unit" where
  "keep_state episodic s = Inr s"

definition greeting :: "message list \<Rightarrow> string" where
  "greeting msgs = ''Hello!''"

definition example_attributes :: "unit agent_attributes" where
  "example_attributes =
     \<lparr>initialize_components = None, episodic_retrieve = no_episode,
      semantic_retrieve_of = no_knowledge, procedural_retrieve_of = Inr ''1. Be kind - it helps'',
      ainvoke = chat_model greeting, create_system_prompt = Some prompt_of_rules,
      update_state = Some keep_state\<rparr>"

definition fresh_agent :: "unit MemoryAgent" where
  "fresh_agent = \<lparr>initialized = True, working_memory = WorkingMemory (Some 50), state = ()\<rparr>"


section \<open>Working memory: results\<close>

lemma max_size_store: "max_size (store m wm) = max_size wm"
  by (simp add: store_def Let_def)

lemma max_size_run_stores:
  "max_size (foldl (\<lambda>w m. store m w) wm ms) = max_size wm"
  by (induction ms arbitrary: wm) (simp_all add: max_size_store)

lemma messages_store_bounded:
  assumes c: "1 \<le> c" and ms: "max_size wm = Some c"
    and inv: "messages wm = drop (length xs - nat c) xs"
  shows "messages (store x wm) = drop (length (xs @ [x]) - nat c) (xs @ [x])"
proof (cases "length xs < nat c")
  case True
  then have "messages wm = xs" using inv by simp
  moreover have "\<not> int (length (xs @ [x])) > c" using True by simp
  ultimately show ?thesis using ms True by (simp add: store_def Let_def)
next
  case False
  then have len: "length (messages wm) = nat c" using inv c by simp
  have gt: "int (length (messages wm @ [x])) > c" using len c by simp
  have "messages (store x wm) = slice_from (messages wm @ [x]) (- c)"
    using ms c gt by (simp add: store_def Let_def)
  also have "\<dots> = drop 1 (messages wm @ [x])"
    using len c by (simp add: slice_from_def nat_add_distrib)
  also have "\<dots> = drop 1 (messages wm) @ [x]"
    using len c by simp
  also have "\<dots> = drop (Suc (length xs) - nat c) xs @ [x]"
    using inv False by (simp add: Suc_diff_le)
  finally show ?thesis using False c by (simp add: Suc_diff_le)
qed

text \<open>
  C3. For a capacity \<open>C \<ge> 1\<close>, storing \<open>N\<close> messages into an empty working memory leaves
  exactly the last \<open>min N C\<close> of them, in the order they were stored, whatever their roles.
\<close>

theorem store_keeps_last_C:
  assumes "1 \<le> C"
  shows "messages (foldl (\<lambda>w m. store m w) (WorkingMemory (Some C)) ms)
           = drop (length ms - nat C) ms
       \<and> length (messages (foldl (\<lambda>w m. store m w) (WorkingMemory (Some C)) ms))
           = min (length ms) (nat C)"
proof -
  have main: "messages (foldl (\<lambda>w m. store m w) (WorkingMemory (Some C)) ms)
                = drop (length ms - nat C) ms"
  proof (induction ms rule: rev_induct)
    case Nil
    show ?case by (simp add: WorkingMemory_def)
  next
    case (snoc x xs)
    have "max_size (foldl (\<lambda>w m. store m w) (WorkingMemory (Some C)) xs) = Some C"
      by (simp add: max_size_run_stores WorkingMemory_def)
    from messages_store_bounded [OF assms this snoc.IH]
    show ?case by simp
  qed
  then show ?thesis by auto
qed

theorem store_keeps_last_C_witness:
  "messages (foldl (\<lambda>w m. store m w) (WorkingMemory (Some 3))
       [HumanMessage ''a'', AIMessage ''b'', HumanMessage ''c'', AIMessage ''d''])
     = [AIMessage ''b'', HumanMessage ''c'', AIMessage ''d'']"
  using store_keeps_last_C [of 3 "[HumanMessage ''a'', AIMessage ''b'', HumanMessage ''c'', AIMessage ''d'']"]
  by simp

subsection \<open>The counters\<close>

lemma update_metadata_counts: "update_metadata m (true_counts xs) = true_counts (xs @ [m])"
  by (cases m) (simp_all add: update_metadata_def true_counts_def)

lemma forget_metadata_counts:
  "forget_metadata y (true_counts (xs @ y # ys)) = true_counts (xs @ ys)"
  by (cases y) (simp_all add: forget_metadata_def true_counts_def)

lemma fold_forget_metadata_counts:
  "fold forget_metadata ys (true_counts (xs @ ys)) = true_counts xs"
proof (induction ys)
  case Nil
  show ?case by simp
next
  case (Cons y ys)
  show ?case using Cons.IH by (simp add: forget_metadata_counts)
qed

text \<open>A \<open>store\<close> that trims nothing, \<open>clear\<close> and \<open>remove_last\<close> keep the counters equal to
  the scan; only the trim of \<open>store\<close> drops messages without counting them out.\<close>

lemma store_consistent_without_trim:
  assumes "counters_consistent wm" and "messages (store m wm) = messages wm @ [m]"
  shows "counters_consistent (store m wm)"
proof -
  have "metadata (store m wm) = update_metadata m (metadata wm)"
    by (simp add: store_def Let_def)
  then show ?thesis using assms by (simp add: counters_consistent_def update_metadata_counts)
qed

lemma clear_consistent: "counters_consistent (clear wm)"
  by (simp add: counters_consistent_def clear_def true_counts_def zero_metadata_def)

lemma remove_last_consistent:
  assumes "counters_consistent wm"
  shows "counters_consistent (remove_last n wm)"
proof (cases "n > 0 \<and> n \<le> int (length (messages wm))")
  case False
  then show ?thesis using assms by (auto simp: remove_last_def)
next
  case True
  define k where "k = length (messages wm) - nat n"
  have a: "slice_from (messages wm) (- n) = drop k (messages wm)"
    using True by (simp add: slice_from_def k_def nat_diff_distrib')
  have b: "slice_to (messages wm) (- n) = take k (messages wm)"
    using True by (simp add: slice_to_def k_def nat_diff_distrib')
  have "fold forget_metadata (drop k (messages wm))
          (true_counts (take k (messages wm) @ drop k (messages wm)))
        = true_counts (take k (messages wm))"
    by (rule fold_forget_metadata_counts)
  then show ?thesis using True assms a b
    by (simp add: remove_last_def counters_consistent_def Let_def)
qed

text \<open>
  C2. The counters are claimed to equal the scan of the stored list after every sequence of
  operations. With capacity 1, storing two user messages leaves one message in the list
  and the counters at two: the trim of \<open>store\<close> evicts without adjusting them.
\<close>

theorem counters_drift_after_trim:
  "run_ops (WorkingMemory (Some 1)) [StoreUser ''a'', StoreUser ''b'']
     = \<lparr>messages = [HumanMessage ''b''], max_size = Some 1,
        metadata = \<lparr>total_messages = 2, system_prompts = 0, user_messages = 2, ai_messages = 0\<rparr>\<rparr>
   \<and> true_counts (messages (run_ops (WorkingMemory (Some 1)) [StoreUser ''a'', StoreUser ''b'']))
     = \<lparr>total_messages = 1, system_prompts = 0, user_messages = 1, ai_messages = 0\<rparr>
   \<and> \<not> counters_consistent (run_ops (WorkingMemory (Some 1)) [StoreUser ''a'', StoreUser ''b''])"
  by (simp add: run_ops_def store_user_def store_def WorkingMemory_def zero_metadata_def
        update_metadata_def slice_from_def counters_consistent_def true_counts_def)

subsection \<open>Retrieval\<close>

lemma lower_examples:
  "lower ''System'' = ''system''" "lower ''USER'' = ''user''" "lower ''ai'' = ''ai''"
  "lower ''assistant'' = ''assistant''"
  by code_simp+

lemma filter_by_type_examples:
  "filter_by_type None msgs = msgs"
  "filter_by_type (Some ''System'') msgs = filter is_SystemMessage msgs"
  "filter_by_type (Some ''USER'') msgs = filter is_HumanMessage msgs"
  "filter_by_type (Some ''ai'') msgs = filter is_AIMessage msgs"
  "filter_by_type (Some ''assistant'') msgs = msgs"
  by (simp_all add: filter_by_type_def lower_examples)

text \<open>
  C10. \<open>retrieve\<close> with \<open>limit = 0\<close>, like \<open>retrieve\<close> with no limit, returns the whole
  sequence after the optional filter by role, not the empty sequence; a positive limit
  returns the last that many.
\<close>

theorem retrieve_limit_zero_is_no_limit:
  "retrieve query \<lparr>limit = Some 0, msg_type = ty\<rparr> wm = Inr (filter_by_type ty (messages wm))
   \<and> retrieve query \<lparr>limit = None, msg_type = ty\<rparr> wm = Inr (filter_by_type ty (messages wm))
   \<and> retrieve query \<lparr>limit = Some (int (Suc k)), msg_type = ty\<rparr> wm
       = Inr (drop (length (filter_by_type ty (messages wm)) - Suc k)
                (filter_by_type ty (messages wm)))"
  by (simp add: retrieve_def Let_def slice_from_def nat_diff_distrib' del: of_nat_Suc)


section \<open>Procedural memory: results\<close>

lemma length_parse_lines:
  "length (parse_lines ls acc) = length acc + length (filter (\<lambda>l. strip l \<noteq> []) ls)"
  by (induction ls arbitrary: acc) (simp_all add: Let_def split: prod.splits)

lemma parse_rules_empty_iff:
  "parse_rules txt = [] \<longleftrightarrow> (\<forall>l \<in> set (split_on CHR 0x0A (strip txt)). strip l = [])"
proof -
  have "parse_rules txt = [] \<longleftrightarrow> length (parse_rules txt) = 0" by simp
  also have "\<dots> \<longleftrightarrow> filter (\<lambda>l. strip l \<noteq> []) (split_on CHR 0x0A (strip txt)) = []"
    by (simp add: parse_rules_def length_parse_lines)
  finally show ?thesis by (simp add: filter_empty_conv)
qed





subsection \<open>Allocation\<close>

lemma fold_max_ge: "b \<le> fold max xs (b::nat)"
proof (induction xs arbitrary: b)
  case Nil
  show ?case by simp
next
  case (Cons x xs)
  have "b \<le> max x b" by simp
  also have "\<dots> \<le> fold max xs (max x b)" by (rule Cons.IH)
  finally show ?case by simp
qed

lemma fold_max_mem: "x \<in> set xs \<Longrightarrow> x \<le> fold max xs (b::nat)"
proof (induction xs arbitrary: b)
  case Nil
  then show ?case by simp
next
  case (Cons y ys)
  show ?case
  proof (cases "x = y")
    case True
    have "x \<le> max y b" using True by simp
    also have "\<dots> \<le> fold max ys (max y b)" by (rule fold_max_ge)
    finally show ?thesis by simp
  next
    case False
    then have "x \<in> set ys" using Cons.prems by simp
    then show ?thesis using Cons.IH by simp
  qed
qed

lemma next_ref_le_fresh_ref: "next_ref pm \<le> fresh_ref pm"
  by (simp add: fresh_ref_def fold_max_ge)

lemma rule_ref_less_fresh_ref: "a \<in> set (rule_refs pm) \<Longrightarrow> a < fresh_ref pm"
proof -
  assume "a \<in> set (rule_refs pm)"
  then have "Suc a \<in> set (map Suc (rule_refs pm))" by simp
  then have "Suc a \<le> fresh_ref pm" unfolding fresh_ref_def by (rule fold_max_mem)
  then show ?thesis by simp
qed

lemma heap_new_object_old:
  "map ((heap pm)(fresh_ref pm := rule)) (rule_refs pm) = map (heap pm) (rule_refs pm)"
  by (rule map_cong[OF refl]) (auto dest: rule_ref_less_fresh_ref)

lemma new_objects_props:
  "new_objects vs pm = (refs, pm2) \<Longrightarrow>
     rule_refs pm2 = rule_refs pm \<and> last_updated pm2 = last_updated pm
     \<and> rule_file pm2 = rule_file pm \<and> rule_file_writable pm2 = rule_file_writable pm
     \<and> (\<forall>b < fresh_ref pm. heap pm2 b = heap pm b)
     \<and> map (heap pm2) refs = vs
     \<and> fresh_ref pm \<le> fresh_ref pm2"
proof (induction vs arbitrary: pm refs pm2)
  case Nil
  then show ?case by simp
next
  case (Cons v vs)
  define pm1 where "pm1 = pm\<lparr>heap := (heap pm)(fresh_ref pm := v), next_ref := Suc (fresh_ref pm)\<rparr>"
  obtain rs pmr where r: "new_objects vs pm1 = (rs, pmr)" by (cases "new_objects vs pm1")
  from Cons.prems r have eq: "refs = fresh_ref pm # rs" "pm2 = pmr"
    by (simp_all add: new_object_def Let_def pm1_def)
  note ih = Cons.IH [OF r]
  have lt: "fresh_ref pm < fresh_ref pm1"
    using next_ref_le_fresh_ref [of pm1] by (simp add: pm1_def)
  have h1: "heap pmr (fresh_ref pm) = v"
    using ih lt by (simp add: pm1_def)
  have h2: "\<forall>b < fresh_ref pm. heap pmr b = heap pm b"
  proof (intro allI impI)
    fix b assume b: "b < fresh_ref pm"
    then have "b < fresh_ref pm1" using lt by simp
    then have "heap pmr b = heap pm1 b" using ih by simp
    then show "heap pmr b = heap pm b" using b by (simp add: pm1_def)
  qed
  have h3: "fresh_ref pm \<le> fresh_ref pmr" using ih lt by simp
  show ?case using ih h1 h2 h3 eq by (simp add: pm1_def)
qed

subsection \<open>The rule list after each operation\<close>

lemma rules_update:
  assumes "llm (create_update_prompt pm ww wa) = Inr reply" and "parse_rules (strip reply) \<noteq> []"
  shows "rules (fst (update llm now ww wa pm)) = take 10 (parse_rules (strip reply))"
proof -
  obtain refs pm1 where n: "new_objects (parse_rules (strip reply)) pm = (refs, pm1)"
    by (cases "new_objects (parse_rules (strip reply)) pm")
  from new_objects_props [OF n] have m: "map (heap pm1) refs = parse_rules (strip reply)" by simp
  then have ne: "refs \<noteq> []" using assms(2) by auto
  have "rules (fst (update llm now ww wa pm)) = map (heap pm1) (take 10 refs)"
    using assms(1) n ne by (simp add: update_def save_rules_def rules_def)
  also have "\<dots> = take 10 (map (heap pm1) refs)" by (simp add: take_map)
  finally show ?thesis using m by simp
qed

lemma rules_add_rule:
  "rules (fst (add_rule ins rat cat pm))
     = rules pm @ [\<lparr>index = int (length (rules pm)) + 1, instruction = ins, rationale = rat, category = cat\<rparr>]"
  by (simp add: add_rule_def new_object_def Let_def save_rules_def rules_def heap_new_object_old)








lemma length_rules_add_rules:
  "length (rules (add_rules inss pm)) = length (rules pm) + length inss"
  unfolding add_rules_def
  by (induction inss arbitrary: pm) (simp_all add: rules_add_rule)



lemma no_rules_empty: "rules no_rules = []" "rule_refs no_rules = []"
  by (simp_all add: no_rules_def rules_def)


lemma twelve_rules_facts:
  "length (rules twelve_rules) = 12"
  by (simp add: twelve_rules_def length_rules_add_rules no_rules_empty)

subsection \<open>The claims\<close>

text \<open>
  C4. When the completion capability answers and its reply parses to no rule, \<open>update\<close>
  returns the state it was given (the same rule list, the same rule file, the same time
  of last update) and raises nothing.
\<close>

theorem update_without_rules_changes_nothing:
  assumes "llm (create_update_prompt pm worked avoid) = Inr reply"
    and "parse_rules (strip reply) = []"
  shows "update llm now worked avoid pm = (pm, None)"
  using assms by (simp add: update_def)

text \<open>
  A reply of blank lines, on a state of three rules.
\<close>

theorem update_without_rules_changes_nothing_witness:
  \<open>parse_rules (strip '' \<newline>  \<newline> '') = []
   \<and> update (replying '' \<newline>  \<newline> '') 5 [''it worked''] [''N/A''] three_rules = (three_rules, None)\<close>
proof -
  have h1: \<open>replying '' \<newline>  \<newline> '' (create_update_prompt three_rules [''it worked''] [''N/A'']) = Inr '' \<newline>  \<newline> ''\<close>
    by (simp add: replying_def)
  have h2: \<open>parse_rules (strip '' \<newline>  \<newline> '') = []\<close>
    by code_simp
  from update_without_rules_changes_nothing
         [of "replying '' \<newline>  \<newline> ''" three_rules "[''it worked'']" "[''N/A'']" "'' \<newline>  \<newline> ''" 5]
       h1 h2
  show ?thesis by simp
qed


text \<open>
  When the list holds one rule object twice, the loop of \<open>remove_rule\<close> assigns to that
  object twice and both places end with the later index.
\<close>

lemma remove_rule_one_object_twice:
  "map index (rules one_object_twice) = [1, 2, 2]
   \<and> map index (rules (fst (remove_rule 1 one_object_twice))) = [2, 2]"
  by (simp add: one_object_twice_def store_object_def procedural_store_def no_rules_def
        new_object_def fresh_ref_def save_rules_def remove_rule_def rules_def Let_def)



lemma update_twelve_lines_example:
  "map index (rules (fst (update (replying twelve_lines) 0 [] [] three_rules))) = [1, 2, 3, 4, 5, 6, 7, 8, 9, 10]"
proof -
  have h1: "replying twelve_lines (create_update_prompt three_rules [] []) = Inr twelve_lines"
    by (simp add: replying_def)
  have h2: "parse_rules (strip twelve_lines) \<noteq> []"
    by code_simp
  have h3: "map index (take 10 (parse_rules (strip twelve_lines))) = [1, 2, 3, 4, 5, 6, 7, 8, 9, 10]"
    by code_simp
  show ?thesis
    using rules_update [of "replying twelve_lines" three_rules "[]" "[]" twelve_lines 0] h1 h2 h3
    by simp
qed

text \<open>
  C9. On a state of \<open>n\<close> rules, whatever \<open>n\<close> is, \<open>add_rule\<close> appends one rule with index
  \<open>n + 1\<close>, giving \<open>n + 1\<close> rules, and writes the rule file with all of them (a write that
  fails raises \<open>ProceduralMemoryError\<close> after the append); \<open>store\<close> appends the rule object
  it is given. Neither looks at the cap of 10.
\<close>

theorem add_rule_appends_without_cap:
  \<open>rules (fst (add_rule ins rat cat pm))
      = rules pm @ [\<lparr>index = int (length (rules pm)) + 1, instruction = ins, rationale = rat, category = cat\<rparr>]
   \<and> length (rules (fst (add_rule ins rat cat pm))) = length (rules pm) + 1
   \<and> snd (add_rule ins rat cat pm) = (if rule_file_writable pm then None else Some ProceduralMemoryError)
   \<and> rule_file (fst (add_rule ins rat cat pm))
      = (if rule_file_writable pm
         then Some (join ''\<newline>'' (map format_rule_line
                (rules pm @ [\<lparr>index = int (length (rules pm)) + 1, instruction = ins, rationale = rat, category = cat\<rparr>])))
         else rule_file pm)
   \<and> rules (fst (procedural_store build (RuleObject a) pm)) = rules pm @ [heap pm a]\<close>
proof (intro conjI)
  show \<open>rules (fst (add_rule ins rat cat pm))
      = rules pm @ [\<lparr>index = int (length (rules pm)) + 1, instruction = ins, rationale = rat, category = cat\<rparr>]\<close>
    by (rule rules_add_rule)
  show "length (rules (fst (add_rule ins rat cat pm))) = length (rules pm) + 1"
    by (simp add: rules_add_rule)
  show "snd (add_rule ins rat cat pm) = (if rule_file_writable pm then None else Some ProceduralMemoryError)"
    by (simp add: add_rule_def new_object_def Let_def save_rules_def)
  show \<open>rule_file (fst (add_rule ins rat cat pm))
      = (if rule_file_writable pm
         then Some (join ''\<newline>'' (map format_rule_line
                (rules pm @ [\<lparr>index = int (length (rules pm)) + 1, instruction = ins, rationale = rat, category = cat\<rparr>])))
         else rule_file pm)\<close>
    by (simp add: add_rule_def new_object_def Let_def save_rules_def rules_def heap_new_object_old)
  show "rules (fst (procedural_store build (RuleObject a) pm)) = rules pm @ [heap pm a]"
    by (simp add: procedural_store_def save_rules_def rules_def)
qed

text \<open>
  A thirteenth rule.
\<close>

theorem add_rule_appends_without_cap_witness:
  "length (rules twelve_rules) = 12
   \<and> length (rules (fst (add_rule ''m'' ''M'' None twelve_rules))) = 13
   \<and> index (last (rules (fst (add_rule ''m'' ''M'' None twelve_rules)))) = 13"
  using add_rule_appends_without_cap [of "''m''" "''M''" None twelve_rules no_kwargs 0]
  by (simp add: twelve_rules_facts)


section \<open>Episodic memory: results\<close>

lemma make_entry_well_typed:
  assumes "well_typed_reflection kvs"
  shows "make_entry conv now kvs =
     Some \<lparr>entry_id = None, conversation = conv, context_tags = tags_field kvs,
           conversation_summary = str_field kvs ''conversation_summary'',
           what_worked = str_field kvs ''what_worked'',
           what_to_avoid = str_field kvs ''what_to_avoid'', created_at = now,
           last_accessed = None, access_count = 0\<rparr>"
  using assms
  by (auto simp: well_typed_reflection_def absent_or_str_def absent_or_str_list_def
        make_entry_def dict_get_def str_field_def tags_field_def as_str_def as_str_list_def
      split: option.splits json.splits if_splits)

text \<open>
  C6, as stated, fails: a reflection object without the key \<open>what_worked\<close> whose
  \<open>conversation_summary\<close> is \<open>null\<close> makes \<open>store\<close> raise, with nothing inserted, although the
  completion call succeeded and the insert would succeed.
\<close>

theorem episodic_store_raises_on_null_field:
  "map_of reflection_with_null_summary ''what_worked'' = None
   \<and> episodic_store (reflecting (JObject reflection_with_null_summary)) 7 short_talk empty_collection
       = (empty_collection, Some EpisodicMemoryError)"
  by code_simp

text \<open>
  C6, amended. When the reflection chain returns a JSON object in which each of the four
  keys is absent or holds a value of its type (a string; a list of strings for
  \<open>context_tags\<close>), and the insert succeeds, \<open>store\<close> inserts one object and raises nothing;
  the object holds the value of every key that is present, the empty string for an absent
  string key and the empty list for absent \<open>context_tags\<close>.
\<close>

theorem episodic_store_defaults_absent_keys:
  assumes "reflect (format_conversation msgs) = Inr (JObject kvs)"
    and "well_typed_reflection kvs"
    and "insert_ok coll"
  shows "episodic_store reflect now msgs coll =
           (coll\<lparr>objects := objects coll @
              [\<lparr>p_conversation = format_conversation msgs, p_context_tags = tags_field kvs,
                p_conversation_summary = str_field kvs ''conversation_summary'',
                p_what_worked = str_field kvs ''what_worked'',
                p_what_to_avoid = str_field kvs ''what_to_avoid'', p_created_at = now\<rparr>]\<rparr>, None)
       \<and> (map_of kvs ''context_tags'' = None \<longrightarrow> tags_field kvs = [])
       \<and> (map_of kvs k = None \<longrightarrow> str_field kvs k = [])"
  using assms
  by (simp add: episodic_store_def Let_def make_entry_well_typed entry_properties_def
        str_field_def tags_field_def)

text \<open>
  A reflection without \<open>what_worked\<close>, on a short conversation.
\<close>

theorem episodic_store_defaults_absent_keys_witness:
  \<open>reflecting (JObject reflection_without_what_worked) (format_conversation short_talk)
     = Inr (JObject reflection_without_what_worked)
   \<and> well_typed_reflection reflection_without_what_worked
   \<and> insert_ok empty_collection
   \<and> map_of reflection_without_what_worked ''what_worked'' = None
   \<and> map (\<lambda>p. (p_conversation p, p_what_worked p, p_what_to_avoid p))
        (objects (fst (episodic_store (reflecting (JObject reflection_without_what_worked)) 7 short_talk empty_collection)))
      = [(''HUMAN: hi\<newline>AI: hello'', [], ''N/A'')]
   \<and> snd (episodic_store (reflecting (JObject reflection_without_what_worked)) 7 short_talk empty_collection) = None\<close>
proof -
  have h1: "reflecting (JObject reflection_without_what_worked) (format_conversation short_talk)
     = Inr (JObject reflection_without_what_worked)"
    by (simp add: reflecting_def)
  have h2: "well_typed_reflection reflection_without_what_worked"
    by code_simp
  have h3: "insert_ok empty_collection"
    by (simp add: empty_collection_def)
  have h4: "map_of reflection_without_what_worked ''what_worked'' = None"
    by code_simp
  have h5: \<open>format_conversation short_talk = ''HUMAN: hi\<newline>AI: hello''\<close>
    by code_simp
  have h6: "str_field reflection_without_what_worked ''what_to_avoid'' = ''N/A''"
    by code_simp
  from episodic_store_defaults_absent_keys
         [of "reflecting (JObject reflection_without_what_worked)" short_talk
             reflection_without_what_worked empty_collection 7 "''what_worked''"]
       h1 h2 h3 h4 h5 h6
  show ?thesis by (simp add: empty_collection_def)
qed


section \<open>Semantic memory: results\<close>

lemma concat_concat_map_if:
  "concat (concat (map (\<lambda>x. if P x then [f x] else []) xs)) = concat (map (\<lambda>x. if P x then f x else []) xs)"
  by (induction xs) simp_all

lemma concat_or_empty: "(if xss \<noteq> [] then concat xss else []) = concat xss"
  by simp

lemma labelled_or_skipped_blank: "chunk_text (snd p) = [] \<Longrightarrow> labelled_or_skipped p = []"
  by (simp add: labelled_or_skipped_def)

lemma format_chunks_eq:
  "format_chunks objs = concat (map labelled_or_skipped (enumerate 0 objs))"
proof -
  have fn: \<open>(\<lambda>(i, obj). if chunk_text obj \<noteq> []
                 then [''\<newline>CHUNK '' @ str_nat (i + 1) @ '':\<newline>'' @ chunk_text obj] else [])
          = (\<lambda>p. if chunk_text (snd p) \<noteq> [] then [labelled_or_skipped p] else [])\<close>
    by (auto simp: fun_eq_iff labelled_or_skipped_def)
  have "format_chunks objs
          = concat (concat (map (\<lambda>p. if chunk_text (snd p) \<noteq> [] then [labelled_or_skipped p] else [])
               (enumerate 0 objs)))"
    unfolding format_chunks_def Let_def fn by (rule concat_or_empty)
  also have "\<dots> = concat (map (\<lambda>p. if chunk_text (snd p) \<noteq> [] then labelled_or_skipped p else [])
               (enumerate 0 objs))"
    by (rule concat_concat_map_if)
  also have "(\<lambda>p. if chunk_text (snd p) \<noteq> [] then labelled_or_skipped p else []) = labelled_or_skipped"
    by (auto simp: fun_eq_iff labelled_or_skipped_blank)
  finally show ?thesis .
qed

lemma format_chunks_clean:
  assumes "\<forall>obj \<in> set objs. \<exists>c. prop_chunk obj = Some c \<and> strip c = c \<and> c \<noteq> []"
  shows "format_chunks objs = format_chunks_as_specified objs"
proof -
  have "map labelled_or_skipped (enumerate 0 objs)
      = map (\<lambda>(i, obj). ''\<newline>CHUNK '' @ str_nat (i + 1) @ '':\<newline>''
                                @ (case prop_chunk obj of None \<Rightarrow> [] | Some c \<Rightarrow> c)) (enumerate 0 objs)"
  proof (rule map_cong[OF refl])
    fix p assume "p \<in> set (enumerate 0 objs)"
    then have "snd p \<in> set objs" by (auto simp: in_set_enumerate_eq dest: nth_mem)
    then obtain c where "prop_chunk (snd p) = Some c" "strip c = c" "c \<noteq> []" using assms by blast
    then show "labelled_or_skipped p = (case p of (i, obj) \<Rightarrow> ''\<newline>CHUNK '' @ str_nat (i + 1) @ '':\<newline>''
                                @ (case prop_chunk obj of None \<Rightarrow> [] | Some c \<Rightarrow> c))"
      by (cases p) (simp add: labelled_or_skipped_def chunk_text_def)
  qed
  then show ?thesis by (simp only: format_chunks_eq format_chunks_as_specified_def)
qed

lemma semantic_retrieve_found:
  assumes "hybrid query (1 / 2) (case limit_kw of None \<Rightarrow> SEMANTIC_CHUNK_LIMIT | Some l \<Rightarrow> l) = Inr objs"
  shows "semantic_retrieve hybrid query limit_kw = Inr (format_chunks objs)"
  using assms by (simp add: semantic_retrieve_def Let_def)

text \<open>
  C7, amended. When the hybrid search returns a list of results, \<open>retrieve\<close> returns one
  block: each result whose text is not blank contributes its text, stripped of surrounding
  whitespace, under the label of its 1-based position in the list, and a result whose text
  is blank or missing contributes nothing; an empty list gives the empty string, not an
  error. When every result has text that is not blank and carries no surrounding
  whitespace, this is every chunk's content under \<open>CHUNK 1\<close>, \<open>CHUNK 2\<close>, ...
\<close>

theorem semantic_retrieve_labels_nonblank_chunks:
  "(hybrid query (1 / 2) (case limit_kw of None \<Rightarrow> SEMANTIC_CHUNK_LIMIT | Some l \<Rightarrow> l) = Inr objs \<longrightarrow>
      semantic_retrieve hybrid query limit_kw = Inr (concat (map labelled_or_skipped (enumerate 0 objs))))
   \<and> (hybrid query (1 / 2) (case limit_kw of None \<Rightarrow> SEMANTIC_CHUNK_LIMIT | Some l \<Rightarrow> l) = Inr [] \<longrightarrow>
      semantic_retrieve hybrid query limit_kw = Inr [])
   \<and> (hybrid query (1 / 2) (case limit_kw of None \<Rightarrow> SEMANTIC_CHUNK_LIMIT | Some l \<Rightarrow> l) = Inr objs
        \<and> (\<forall>obj \<in> set objs. \<exists>c. prop_chunk obj = Some c \<and> strip c = c \<and> c \<noteq> []) \<longrightarrow>
      semantic_retrieve hybrid query limit_kw = Inr (format_chunks_as_specified objs))"
proof (intro conjI impI)
  assume "hybrid query (1 / 2) (case limit_kw of None \<Rightarrow> SEMANTIC_CHUNK_LIMIT | Some l \<Rightarrow> l) = Inr objs"
  then show "semantic_retrieve hybrid query limit_kw = Inr (concat (map labelled_or_skipped (enumerate 0 objs)))"
    by (simp add: semantic_retrieve_found format_chunks_eq)
next
  assume "hybrid query (1 / 2) (case limit_kw of None \<Rightarrow> SEMANTIC_CHUNK_LIMIT | Some l \<Rightarrow> l) = Inr []"
  then show "semantic_retrieve hybrid query limit_kw = Inr []"
    by (simp add: semantic_retrieve_found format_chunks_eq)
next
  assume "hybrid query (1 / 2) (case limit_kw of None \<Rightarrow> SEMANTIC_CHUNK_LIMIT | Some l \<Rightarrow> l) = Inr objs
        \<and> (\<forall>obj \<in> set objs. \<exists>c. prop_chunk obj = Some c \<and> strip c = c \<and> c \<noteq> [])"
  then show "semantic_retrieve hybrid query limit_kw = Inr (format_chunks_as_specified objs)"
    by (simp add: semantic_retrieve_found format_chunks_clean)
qed

text \<open>
  C7, as stated, fails: of two results, the first with empty text, the block holds the
  second alone, under the label \<open>CHUNK 2\<close>; the first result gets no label.
\<close>

theorem semantic_retrieve_skips_blank_chunk:
  \<open>semantic_retrieve (found blank_then_x) ''q'' None = Inr ''\<newline>CHUNK 2:\<newline>x''
   \<and> format_chunks_as_specified blank_then_x = ''\<newline>CHUNK 1:\<newline>\<newline>CHUNK 2:\<newline>x''
   \<and> semantic_retrieve (found blank_then_x) ''q'' None \<noteq> Inr (format_chunks_as_specified blank_then_x)\<close>
  by code_simp

text \<open>
  Two results with text, and no result.
\<close>

theorem semantic_retrieve_labels_nonblank_chunks_witness:
  \<open>found two_clean_chunks ''q'' (1 / 2) SEMANTIC_CHUNK_LIMIT = Inr two_clean_chunks
   \<and> list_all (\<lambda>obj. case prop_chunk obj of None \<Rightarrow> False | Some c \<Rightarrow> strip c = c \<and> c \<noteq> []) two_clean_chunks
   \<and> semantic_retrieve (found two_clean_chunks) ''q'' None = Inr ''\<newline>CHUNK 1:\<newline>alpha\<newline>CHUNK 2:\<newline>beta''
   \<and> found [] ''q'' (1 / 2) SEMANTIC_CHUNK_LIMIT = Inr []
   \<and> semantic_retrieve (found []) ''q'' None = Inr []\<close>
proof -
  have h1: "found two_clean_chunks ''q'' (1 / 2) (case None of None \<Rightarrow> SEMANTIC_CHUNK_LIMIT | Some l \<Rightarrow> l) = Inr two_clean_chunks"
    by (simp add: found_def)
  have h2: "list_all (\<lambda>obj. case prop_chunk obj of None \<Rightarrow> False | Some c \<Rightarrow> strip c = c \<and> c \<noteq> []) two_clean_chunks"
    by code_simp
  then have h2': "\<forall>obj \<in> set two_clean_chunks. \<exists>c. prop_chunk obj = Some c \<and> strip c = c \<and> c \<noteq> []"
    by (auto simp: list_all_iff split: option.splits)
  have h3: "found [] ''q'' (1 / 2) (case None of None \<Rightarrow> SEMANTIC_CHUNK_LIMIT | Some l \<Rightarrow> l) = Inr []"
    by (simp add: found_def)
  have h4: \<open>format_chunks_as_specified two_clean_chunks = ''\<newline>CHUNK 1:\<newline>alpha\<newline>CHUNK 2:\<newline>beta''\<close>
    by code_simp
  from semantic_retrieve_labels_nonblank_chunks [of "found two_clean_chunks" "''q''" None two_clean_chunks] h1 h2'
  have a: "semantic_retrieve (found two_clean_chunks) ''q'' None = Inr (format_chunks_as_specified two_clean_chunks)"
    by blast
  from semantic_retrieve_labels_nonblank_chunks [of "found []" "''q''" None "[]"] h3
  have b: "semantic_retrieve (found []) ''q'' None = Inr []"
    by blast
  from a b h1 h2 h3 h4 show ?thesis by simp
qed

lemma sorted_get:
  assumes "fetch src = Inr objs"
  shows "get_by_source fetch src = Inr (sort_key chunk_index (map to_chunk objs))"
  using assms by (simp add: get_by_source_def)

text \<open>
  C8, amended. \<open>get_by_source\<close> returns the chunks of the store's answer, each once,
  in ascending order of \<open>chunk_index\<close>, chunks of equal index in the store's order; the
  order is strictly ascending when the indices are pairwise distinct.
\<close>

theorem get_by_source_sorts_stably:
  "(fetch src = Inr objs \<longrightarrow>
      (\<exists>cs. get_by_source fetch src = Inr cs
         \<and> sorted (map chunk_index cs)
         \<and> mset cs = mset (map to_chunk objs)
         \<and> (\<forall>k. filter (\<lambda>c. chunk_index c = k) cs = filter (\<lambda>c. chunk_index c = k) (map to_chunk objs))
         \<and> (distinct (map chunk_index (map to_chunk objs)) \<longrightarrow> sorted_wrt (<) (map chunk_index cs))))"
proof (intro impI)
  assume f: "fetch src = Inr objs"
  let ?cs = "sort_key chunk_index (map to_chunk objs)"
  have 1: "get_by_source fetch src = Inr ?cs" using f by (rule sorted_get)
  have 2: "sorted (map chunk_index ?cs)" by (rule sorted_sort_key)
  have 3: "mset ?cs = mset (map to_chunk objs)" by simp
  have 4: "\<forall>k. filter (\<lambda>c. chunk_index c = k) ?cs = filter (\<lambda>c. chunk_index c = k) (map to_chunk objs)"
    by (simp add: sort_key_stable)
  have 5: "distinct (map chunk_index (map to_chunk objs)) \<longrightarrow> sorted_wrt (<) (map chunk_index ?cs)"
  proof
    assume d: "distinct (map chunk_index (map to_chunk objs))"
    have "mset (map chunk_index ?cs) = mset (map chunk_index (map to_chunk objs))"
      by (simp only: mset_map 3)
    then have "distinct (map chunk_index ?cs)" using d by (metis mset_eq_imp_distinct_iff)
    then show "sorted_wrt (<) (map chunk_index ?cs)" using 2 by (simp add: strict_sorted_iff)
  qed
  from 1 2 3 4 5 show "\<exists>cs. get_by_source fetch src = Inr cs
         \<and> sorted (map chunk_index cs)
         \<and> mset cs = mset (map to_chunk objs)
         \<and> (\<forall>k. filter (\<lambda>c. chunk_index c = k) cs = filter (\<lambda>c. chunk_index c = k) (map to_chunk objs))
         \<and> (distinct (map chunk_index (map to_chunk objs)) \<longrightarrow> sorted_wrt (<) (map chunk_index cs))"
    by blast
qed

text \<open>
  C8, as stated, fails: two chunks of the same index, as a document loaded twice leaves
  them, come back in an order that is not strictly ascending.
\<close>

theorem get_by_source_ties_not_strict:
  "get_by_source (fetched twice_loaded) ''doc.pdf'' = Inr (map to_chunk twice_loaded)
   \<and> map chunk_index (map to_chunk twice_loaded) = [0, 0]
   \<and> \<not> sorted_wrt (<) (map chunk_index (map to_chunk twice_loaded))"
  by code_simp

text \<open>
  Three chunks in the order 2, 0, 1.
\<close>

theorem get_by_source_sorts_stably_witness:
  "fetched shuffled_chunks ''doc.pdf'' = Inr shuffled_chunks
   \<and> distinct (map chunk_index (map to_chunk shuffled_chunks))
   \<and> (\<exists>cs. get_by_source (fetched shuffled_chunks) ''doc.pdf'' = Inr cs
          \<and> sorted_wrt (<) (map chunk_index cs)
          \<and> mset cs = mset (map to_chunk shuffled_chunks))"
proof -
  have h1: "fetched shuffled_chunks ''doc.pdf'' = Inr shuffled_chunks"
    by (simp add: fetched_def)
  have h2: "distinct (map chunk_index (map to_chunk shuffled_chunks))"
    by code_simp
  from get_by_source_sorts_stably [of "fetched shuffled_chunks" "''doc.pdf''" shuffled_chunks] h1 h2
  show ?thesis by blast
qed

lemma get_by_source_example:
  "map (map_sum id (map chunk_id)) [get_by_source (fetched shuffled_chunks) ''doc.pdf''] = [Inr [''u1'', ''u2'', ''u3'']]"
  by code_simp


section \<open>The agent: results\<close>

text \<open>With both methods supplied and a completion capability that answers whatever it is
  handed, the appends come in the order system message, contextual user message (only for
  a non-empty semantic result), user message, assistant reply.\<close>

lemma process_message_with_helpers:
  assumes "initialized a"
    and "episodic_retrieve attrs user_input = Inr episodic"
    and "semantic_retrieve_of attrs user_input = Inr semantic"
    and "procedural_retrieve_of attrs = Inr procedural"
    and "create_system_prompt attrs = Some mk"
    and "mk episodic procedural = Inr system_prompt"
    and "ainvoke attrs CoroutineObject = Inr reply"
    and "update_state attrs = Some upd"
    and "upd episodic (state a) = Inr s"
  shows "process_message attrs user_input a =
           (a\<lparr>working_memory :=
                store_ai reply
                  (store_user user_input
                     (if semantic \<noteq> [] then store_semantic semantic (store_system system_prompt (working_memory a))
                      else store_system system_prompt (working_memory a))),
              state := s\<rparr>, Inr reply)"
  using assms by (simp add: process_message_def store_turn_def generate_response_def Let_def)

text \<open>
  C1. On an initialized agent whose retrievals succeed, \<open>process_message\<close> of the class as
  defined raises \<open>AttributeError\<close> at the call of \<open>_create_system_prompt\<close>, with nothing
  appended to working memory. With the two missing methods supplied, the system message
  and the user message are appended, and the completion call is handed the coroutine
  object, not the message sequence: a chat model raises \<open>ValueError\<close>, no assistant message
  is appended and no reply is returned.
\<close>

theorem process_message_raises:
  "process_message (as_defined example_attributes) ''Hello'' fresh_agent = (fresh_agent, Inl AttributeError)
   \<and> process_message example_attributes ''Hello'' fresh_agent
       = (fresh_agent\<lparr>working_memory :=
            store_user ''Hello'' (store_system ''1. Be kind - it helps'' (WorkingMemory (Some 50)))\<rparr>,
          Inl ValueError)
   \<and> messages (working_memory (fst (process_message example_attributes ''Hello'' fresh_agent)))
       = [SystemMessage ''1. Be kind - it helps'', HumanMessage ''Hello'']"
  by (simp add: process_message_def store_turn_def generate_response_def Let_def as_defined_def
        example_attributes_def fresh_agent_def no_episode_def no_knowledge_def prompt_of_rules_def
        keep_state_def chat_model_def store_user_def store_system_def store_def WorkingMemory_def)

end
